theory Spec2Isabelle
  imports Complex_Main "HOL-Library.Sublist"
begin

section \<open>Exceptions (exceptions.py) and results\<close>

text \<open>
  The exception classes of \<^verbatim>\<open>exceptions.py\<close>, together with the built-in classes the
  code meets: \<open>OSError\<close> (the class \<^verbatim>\<open>IOError\<close> is an alias of), \<open>ValueError\<close>,
  \<open>OverflowError\<close>, and
  \<open>OtherException\<close> for every other subclass of \<^verbatim>\<open>Exception\<close>. An exception value carries
  its class and \<^verbatim>\<open>str(e)\<close>. Every value of type \<open>exc\<close> is an instance of \<^verbatim>\<open>Exception\<close>:
  \<^verbatim>\<open>KeyboardInterrupt\<close> and \<^verbatim>\<open>SystemExit\<close> are not modelled.
\<close>

datatype exc_class =
    CADEngineException
  | FileValidationError
  | FileSizeExceededError
  | InvalidFileTypeError
  | StepReadError
  | MeshingError
  | StlWriteError
  | ConversionError
  | OSError
  | ValueError
  | OverflowError
  | OtherException

datatype exc = Exc (cls: exc_class) (msg: string)

type_synonym 'a res = "exc + 'a"

section \<open>Python values used by the code\<close>

text \<open>
  A Python \<^verbatim>\<open>float\<close>: a finite double is the rational number it denotes; comparisons
  with NaN are false.
\<close>

datatype pyfloat = Finite real | PosInf | NegInf | NaN

fun float_le :: "pyfloat \<Rightarrow> pyfloat \<Rightarrow> bool" where
  "float_le NaN _ = False"
| "float_le _ NaN = False"
| "float_le NegInf _ = True"
| "float_le _ PosInf = True"
| "float_le (Finite x) (Finite y) = (x \<le> y)"
| "float_le PosInf _ = False"
| "float_le _ NegInf = False"

text \<open>Decimal rendering of integers, as \<^verbatim>\<open>str(n)\<close> and \<^verbatim>\<open>f"{n}"\<close> give it.\<close>

fun show_nat :: "nat \<Rightarrow> string" where
  "show_nat n =
     (if n < 10 then [''0123456789'' ! n]
      else show_nat (n div 10) @ [''0123456789'' ! (n mod 10)])"

declare show_nat.simps [simp del]

definition show_int :: "int \<Rightarrow> string" where
  "show_int i = (if i < 0 then CHR ''-'' # show_nat (nat (- i)) else show_nat (nat i))"

section \<open>The file system and the geometry kernel\<close>

text \<open>
  A file on disk: its bytes, and the exception that \<^verbatim>\<open>open(path, 'rb')\<close> or the read
  raises for it, if any (a permission problem, for instance). A path that is not in the
  map does not exist.
\<close>

record disk_file =
  content :: string
  open_error :: "exc option"

type_synonym filesystem = "string \<Rightarrow> disk_file option"

definition no_such_file :: "string \<Rightarrow> exc" where
  "no_such_file p =
     Exc OSError (''[Errno 2] No such file or directory: '' @ [CHR 0x27] @ p @ [CHR 0x27])"

definition os_path_exists :: "filesystem \<Rightarrow> string \<Rightarrow> bool" where
  "os_path_exists d p = (case d p of None \<Rightarrow> False | Some f \<Rightarrow> True)"

definition os_path_getsize :: "filesystem \<Rightarrow> string \<Rightarrow> nat res" where
  "os_path_getsize d p =
     (case d p of None \<Rightarrow> Inl (no_such_file p) | Some f \<Rightarrow> Inr (length (content f)))"

text \<open>\<^verbatim>\<open>with open(file_path, 'rb') as f: header = f.read(n)\<close>\<close>

definition open_rb_read :: "filesystem \<Rightarrow> string \<Rightarrow> nat \<Rightarrow> string res" where
  "open_rb_read d p n =
     (case d p of
        None \<Rightarrow> Inl (no_such_file p)
      | Some f \<Rightarrow> (case open_error f of Some e \<Rightarrow> Inl e | None \<Rightarrow> Inr (take n (content f))))"

text \<open>
  The OpenCascade kernel is outside the repository. A shape is an opaque handle
  (\<^verbatim>\<open>TopoDS_Shape\<close>); a mesh object is the tuple of arguments its constructor was given.
  Every kernel call of \<^verbatim>\<open>services.py\<close> is a field of the record \<open>kernel\<close>: it either
  returns a value or raises. Only \<open>Write\<close> changes the disk. The constant
  \<^verbatim>\<open>IFSelect_RetDone\<close> is imported from the kernel and is a field too.
\<close>

type_synonym shape = nat

datatype mesh_obj = Mesh shape pyfloat bool pyfloat bool

fun is_relative :: "mesh_obj \<Rightarrow> bool" where
  "is_relative (Mesh s lin rel ang par) = rel"

fun mesh_linear :: "mesh_obj \<Rightarrow> pyfloat" where
  "mesh_linear (Mesh s lin rel ang par) = lin"

record kernel =
  IFSelect_RetDone :: int
  STEPControl_Reader :: "filesystem \<Rightarrow> unit res"
  ReadFile :: "string \<Rightarrow> filesystem \<Rightarrow> int res"
  TransferRoots :: "string \<Rightarrow> filesystem \<Rightarrow> int res"
  OneShape :: "string \<Rightarrow> filesystem \<Rightarrow> shape res"
  IsNull :: "shape \<Rightarrow> filesystem \<Rightarrow> bool res"
  ShapeType :: "shape \<Rightarrow> filesystem \<Rightarrow> nat res"
  BRepMesh_IncrementalMesh :: "mesh_obj \<Rightarrow> filesystem \<Rightarrow> unit res"
  Perform :: "mesh_obj \<Rightarrow> filesystem \<Rightarrow> unit res"
  IsDone :: "mesh_obj \<Rightarrow> filesystem \<Rightarrow> bool res"
  StlAPI_Writer :: "filesystem \<Rightarrow> unit res"
  SetASCIIMode :: "bool \<Rightarrow> filesystem \<Rightarrow> unit res"
  Write :: "bool \<Rightarrow> shape \<Rightarrow> string \<Rightarrow> filesystem \<Rightarrow> bool res \<times> filesystem"

text \<open>
  The state a run threads through: the disk, and the list of kernel calls made so far
  (with their arguments), in order.
\<close>

datatype call =
    C_STEPControl_Reader
  | C_ReadFile string
  | C_TransferRoots
  | C_OneShape
  | C_IsNull shape
  | C_ShapeType shape
  | C_BRepMesh_IncrementalMesh mesh_obj
  | C_Perform mesh_obj
  | C_IsDone mesh_obj
  | C_StlAPI_Writer
  | C_SetASCIIMode bool
  | C_Write shape string

fun is_reader_call :: "call \<Rightarrow> bool" where
  "is_reader_call C_STEPControl_Reader = True"
| "is_reader_call (C_ReadFile p) = True"
| "is_reader_call C_TransferRoots = True"
| "is_reader_call C_OneShape = True"
| "is_reader_call (C_IsNull s) = True"
| "is_reader_call (C_ShapeType s) = True"
| "is_reader_call c = False"

text \<open>
  A call that constructs a mesh object does so with the given linear deflection and with
  the relative flag off.
\<close>

fun absolute_mesh_call :: "pyfloat \<Rightarrow> call \<Rightarrow> bool" where
  "absolute_mesh_call lin (C_BRepMesh_IncrementalMesh m) =
     (mesh_linear m = lin \<and> is_relative m = False)"
| "absolute_mesh_call lin c = True"

record world =
  disk :: filesystem
  trace :: "call list"

type_synonym 'a M = "world \<Rightarrow> 'a res \<times> world"

definition returnM :: "'a \<Rightarrow> 'a M" where
  "returnM x = (\<lambda>w. (Inr x, w))"

definition raiseM :: "exc \<Rightarrow> 'a M" where
  "raiseM e = (\<lambda>w. (Inl e, w))"

definition bindM :: "'a M \<Rightarrow> ('a \<Rightarrow> 'b M) \<Rightarrow> 'b M" where
  "bindM m f = (\<lambda>w. case m w of (Inl e, w') \<Rightarrow> (Inl e, w') | (Inr x, w') \<Rightarrow> f x w')"

text \<open>\<^verbatim>\<open>try: m  except Exception as e: h e\<close>\<close>

definition catchM :: "'a M \<Rightarrow> (exc \<Rightarrow> 'a M) \<Rightarrow> 'a M" where
  "catchM m h = (\<lambda>w. case m w of (Inl e, w') \<Rightarrow> h e w' | (Inr x, w') \<Rightarrow> (Inr x, w'))"

text \<open>A call of \<^verbatim>\<open>os.path\<close>: reads the disk.\<close>

definition os_call :: "(filesystem \<Rightarrow> 'a res) \<Rightarrow> 'a M" where
  "os_call f = (\<lambda>w. (f (disk w), w))"

text \<open>A kernel call that reads the disk at most: recorded in the trace.\<close>

definition kcall :: "call \<Rightarrow> (filesystem \<Rightarrow> 'a res) \<Rightarrow> 'a M" where
  "kcall c f = (\<lambda>w. (f (disk w), w\<lparr>trace := trace w @ [c]\<rparr>))"

text \<open>The kernel call that writes the disk.\<close>

definition kcall_write :: "call \<Rightarrow> (filesystem \<Rightarrow> 'a res \<times> filesystem) \<Rightarrow> 'a M" where
  "kcall_write c f =
     (\<lambda>w. case f (disk w) of (r, d') \<Rightarrow> (r, w\<lparr>disk := d', trace := trace w @ [c]\<rparr>))"

section \<open>services.py\<close>

subsection \<open>StepReader.read\<close>

text \<open>
  The body of the \<^verbatim>\<open>try\<close> block of \<^verbatim>\<open>StepReader.read\<close>. Logging has no effect on
  the result and is left out, except for the kernel call \<^verbatim>\<open>shape.ShapeType()\<close> that the
  last log message makes.
\<close>

definition StepReader_read_try :: "kernel \<Rightarrow> string \<Rightarrow> shape M" where
  "StepReader_read_try k step_file_path =
     bindM (os_call (\<lambda>d. Inr (os_path_exists d step_file_path))) (\<lambda>ex.
     if \<not> ex then raiseM (Exc StepReadError (''STEP file does not exist: '' @ step_file_path))
     else
     bindM (os_call (\<lambda>d. os_path_getsize d step_file_path)) (\<lambda>file_size.
     bindM (kcall C_STEPControl_Reader (STEPControl_Reader k)) (\<lambda>reader.
     bindM (kcall (C_ReadFile step_file_path) (ReadFile k step_file_path)) (\<lambda>status.
     if status \<noteq> IFSelect_RetDone k
     then raiseM (Exc StepReadError (''Failed to read STEP file, status code: '' @ show_int status))
     else
     bindM (kcall C_TransferRoots (TransferRoots k step_file_path)) (\<lambda>nb_roots.
     bindM (kcall C_OneShape (OneShape k step_file_path)) (\<lambda>shape.
     bindM (kcall (C_IsNull shape) (IsNull k shape)) (\<lambda>null.
     if null then raiseM (Exc StepReadError ''STEP file contains no valid shapes'')
     else
     bindM (kcall (C_ShapeType shape) (ShapeType k shape)) (\<lambda>shape_type.
     returnM shape))))))))"

text \<open>
  \<^verbatim>\<open>except StepReadError: raise\<close>, then
  \<^verbatim>\<open>except Exception as e: raise StepReadError(f"Error reading STEP file: {str(e)}")\<close>
\<close>

definition StepReader_read :: "kernel \<Rightarrow> string \<Rightarrow> shape M" where
  "StepReader_read k step_file_path =
     catchM (StepReader_read_try k step_file_path) (\<lambda>e.
       if cls e = StepReadError then raiseM e
       else raiseM (Exc StepReadError (''Error reading STEP file: '' @ msg e)))"

subsection \<open>ShapeMesher.mesh\<close>

text \<open>
  The fields \<^verbatim>\<open>linear_deflection\<close> and \<^verbatim>\<open>angular_deflection\<close> of the mesher; the
  prefix keeps them apart from the fields of \<^verbatim>\<open>AppConfig\<close>. The third constructor argument
  is \<^verbatim>\<open>False  # Not relative\<close>, the fifth \<^verbatim>\<open>True  # In parallel\<close>.
\<close>

record ShapeMesher =
  sm_linear_deflection :: pyfloat
  sm_angular_deflection :: pyfloat

definition ShapeMesher_mesh_try :: "kernel \<Rightarrow> ShapeMesher \<Rightarrow> shape \<Rightarrow> shape M" where
  "ShapeMesher_mesh_try k self shape =
     (let mesh = Mesh shape (sm_linear_deflection self) False (sm_angular_deflection self) True in
      bindM (kcall (C_BRepMesh_IncrementalMesh mesh) (BRepMesh_IncrementalMesh k mesh)) (\<lambda>u.
      bindM (kcall (C_Perform mesh) (Perform k mesh)) (\<lambda>u.
      bindM (kcall (C_IsDone mesh) (IsDone k mesh)) (\<lambda>done.
      if \<not> done then raiseM (Exc MeshingError ''Meshing operation failed'')
      else returnM shape))))"

definition ShapeMesher_mesh :: "kernel \<Rightarrow> ShapeMesher \<Rightarrow> shape \<Rightarrow> shape M" where
  "ShapeMesher_mesh k self shape =
     catchM (ShapeMesher_mesh_try k self shape) (\<lambda>e.
       if cls e = MeshingError then raiseM e
       else raiseM (Exc MeshingError (''Error meshing shape: '' @ msg e)))"

subsection \<open>StlWriter.write\<close>

text \<open>
  The result of the kernel's \<^verbatim>\<open>Write\<close> is not looked at; the size of the file is read
  for the log only.
\<close>

record StlWriter =
  ascii_mode :: bool

definition StlWriter_write_try :: "kernel \<Rightarrow> StlWriter \<Rightarrow> shape \<Rightarrow> string \<Rightarrow> string M" where
  "StlWriter_write_try k self shape stl_file_path =
     bindM (kcall C_StlAPI_Writer (StlAPI_Writer k)) (\<lambda>stl_writer.
     bindM (kcall (C_SetASCIIMode (ascii_mode self)) (SetASCIIMode k (ascii_mode self))) (\<lambda>u.
     bindM (kcall_write (C_Write shape stl_file_path)
              (Write k (ascii_mode self) shape stl_file_path)) (\<lambda>written.
     bindM (os_call (\<lambda>d. Inr (os_path_exists d stl_file_path))) (\<lambda>ex.
     if \<not> ex then raiseM (Exc StlWriteError ''STL file was not created'')
     else
     bindM (os_call (\<lambda>d. os_path_getsize d stl_file_path)) (\<lambda>file_size.
     returnM stl_file_path)))))"

definition StlWriter_write :: "kernel \<Rightarrow> StlWriter \<Rightarrow> shape \<Rightarrow> string \<Rightarrow> string M" where
  "StlWriter_write k self shape stl_file_path =
     catchM (StlWriter_write_try k self shape stl_file_path) (\<lambda>e.
       if cls e = StlWriteError then raiseM e
       else raiseM (Exc StlWriteError (''Error writing STL file: '' @ msg e)))"

subsection \<open>ConversionService.convert\<close>

text \<open>The service receives its three stages by the constructor.\<close>

record ConversionService =
  step_reader :: "string \<Rightarrow> shape M"
  shape_mesher :: "shape \<Rightarrow> shape M"
  stl_writer :: "shape \<Rightarrow> string \<Rightarrow> string M"

definition convert :: "ConversionService \<Rightarrow> string \<Rightarrow> string \<Rightarrow> string M" where
  "convert self step_file_path stl_file_path =
     catchM
       (bindM (step_reader self step_file_path) (\<lambda>shape.
        bindM (shape_mesher self shape) (\<lambda>meshed_shape.
        bindM (stl_writer self meshed_shape stl_file_path) (\<lambda>output_path.
        returnM output_path))))
       (\<lambda>e.
         if cls e = StepReadError \<or> cls e = MeshingError \<or> cls e = StlWriteError
         then raiseM (Exc ConversionError (''Conversion failed: '' @ msg e))
         else raiseM (Exc ConversionError (''Unexpected error during conversion: '' @ msg e)))"

text \<open>The service as the repository's own classes build it, over a kernel.\<close>

definition service :: "kernel \<Rightarrow> ShapeMesher \<Rightarrow> StlWriter \<Rightarrow> ConversionService" where
  "service k m wr =
     \<lparr>step_reader = StepReader_read k,
      shape_mesher = ShapeMesher_mesh k m,
      stl_writer = StlWriter_write k wr\<rparr>"

section \<open>Python built-ins used by validators.py and config.py\<close>

text \<open>A result without state: \<open>bindR\<close> runs the next statement unless one has raised.\<close>

definition bindR :: "'a res \<Rightarrow> ('a \<Rightarrow> 'b res) \<Rightarrow> 'b res" where
  "bindR r f = (case r of Inl e \<Rightarrow> Inl e | Inr x \<Rightarrow> f x)"

text \<open>
  \<^verbatim>\<open>sep.join(xs)\<close> and \<^verbatim>\<open>s.split(c)\<close> for a separator of one character.
\<close>

fun str_join :: "string \<Rightarrow> string list \<Rightarrow> string" where
  "str_join sep [] = []"
| "str_join sep [x] = x"
| "str_join sep (x # y # ys) = x @ sep @ str_join sep (y # ys)"

fun str_split :: "char \<Rightarrow> string \<Rightarrow> string list" where
  "str_split c [] = [[]]"
| "str_split c (x # xs) =
     (if x = c then [] # str_split c xs
      else (case str_split c xs of [] \<Rightarrow> [[x]] | y # ys \<Rightarrow> (x # y) # ys))"

text \<open>
  \<^verbatim>\<open>n / (1024 * 1024)\<close> for an \<^verbatim>\<open>int\<close> \<open>n\<close>: Python returns the double nearest to the
  quotient, ties to the even mantissa, and raises \<open>OverflowError\<close> when that is no finite
  double. The divisor is \<open>2^20\<close>, so the nearest double is \<open>n\<close> rounded to 53 significant
  bits, over \<open>2^20\<close>; it is finite when the rounded \<open>n\<close> is below \<open>2^1044\<close> in magnitude.
  \<open>bit_length\<close> is \<^verbatim>\<open>int.bit_length\<close>; \<open>round_to_multiple a e\<close> is the multiple of \<open>2^e\<close>
  nearest to \<open>a\<close>, ties to the even multiple.
\<close>

fun bit_length :: "nat \<Rightarrow> nat" where
  "bit_length n = (if n = 0 then 0 else Suc (bit_length (n div 2)))"

declare bit_length.simps [simp del]

definition round_to_multiple :: "nat \<Rightarrow> nat \<Rightarrow> nat" where
  "round_to_multiple a e =
     (let q = a div 2 ^ e; r = a mod 2 ^ e; h = 2 ^ (e - 1)
      in (if r < h then q else if h < r then q + 1 else if even q then q else q + 1) * 2 ^ e)"

definition round53 :: "int \<Rightarrow> int" where
  "round53 n =
     (let a = nat \<bar>n\<bar>; e = bit_length a - 53
      in if e = 0 then n else sgn n * int (round_to_multiple a e))"

definition float_MB :: "int \<Rightarrow> real" where
  "float_MB n = real_of_int (round53 n) / (1024 * 1024)"

definition truediv_MB :: "int \<Rightarrow> real res" where
  "truediv_MB n =
     (if 2 ^ 1044 \<le> \<bar>round53 n\<bar>
      then Inl (Exc OverflowError ''integer division result too large for a float'')
      else Inr (float_MB n))"

text \<open>
  \<^verbatim>\<open>f"{x:.2f}"\<close> for a finite double \<open>x\<close>: the decimal expansion of \<open>x\<close> rounded to two
  places, ties to the even digit.
\<close>

definition round_half_even :: "real \<Rightarrow> int" where
  "round_half_even y =
     (let f = \<lfloor>y\<rfloor>; r = y - of_int f
      in if r < 1/2 then f else if 1/2 < r then f + 1 else if even f then f else f + 1)"

definition format_2f :: "real \<Rightarrow> string" where
  "format_2f x =
     (let h = nat (round_half_even (\<bar>x\<bar> * 100))
      in (if x < 0 then ''-'' else []) @ show_nat (h div 100) @ ''.'' @
         [''0123456789'' ! (h mod 100 div 10), ''0123456789'' ! (h mod 10)])"

text \<open>
  The library functions whose result the code takes as it comes: \<^verbatim>\<open>Path(name).suffix\<close>,
  \<^verbatim>\<open>str.lower\<close>, \<^verbatim>\<open>str.upper\<close>, \<^verbatim>\<open>str.strip\<close>, \<^verbatim>\<open>int(s)\<close>, \<^verbatim>\<open>float(s)\<close>, the text of a
  float inside an f-string, and the order in which this interpreter iterates the set
  \<^verbatim>\<open>ALLOWED_EXTENSIONS\<close>. The functions below take them as a record, so that every
  theorem holds for whatever these functions compute.
\<close>

record python =
  Path_suffix :: "string \<Rightarrow> string"
  str_lower :: "string \<Rightarrow> string"
  str_upper :: "string \<Rightarrow> string"
  str_strip :: "string \<Rightarrow> string"
  iter_ALLOWED_EXTENSIONS :: "string list"
  int_of_str :: "string \<Rightarrow> int res"
  float_of_str :: "string \<Rightarrow> pyfloat res"
  float_repr :: "pyfloat \<Rightarrow> string"

text \<open>
  The doubles that the literals \<^verbatim>\<open>0.001\<close>, \<^verbatim>\<open>0.1\<close>, \<^verbatim>\<open>0.0009\<close> and \<^verbatim>\<open>1.1\<close> denote
  (\<^verbatim>\<open>1.0\<close> and \<^verbatim>\<open>0.5\<close> are exact).
\<close>

definition float_0_001 :: pyfloat where
  "float_0_001 = Finite (1152921504606847 / 1152921504606846976)"

definition float_0_1 :: pyfloat where
  "float_0_1 = Finite (3602879701896397 / 36028797018963968)"

definition float_0_0009 :: pyfloat where
  "float_0_0009 = Finite (4150517416584649 / 4611686018427387904)"

definition float_1_1 :: pyfloat where
  "float_1_1 = Finite (2476979795053773 / 2251799813685248)"

section \<open>validators.py\<close>

definition STEP_MAGIC_NUMBERS :: "string list" where
  "STEP_MAGIC_NUMBERS = [''ISO-10303-21;'', ''ISO-10303-28;'']"

definition ALLOWED_EXTENSIONS :: "string set" where
  "ALLOWED_EXTENSIONS = {''.step'', ''.stp'', ''.iges'', ''.igs''}"

record FileValidator =
  max_file_size_bytes :: int

text \<open>
  \<^verbatim>\<open>os.path.getsize\<close> and the two divisions are outside any \<^verbatim>\<open>try\<close>: their errors leave
  the function as they are. \<^verbatim>\<open>max_mb\<close> is computed before \<^verbatim>\<open>actual_mb\<close>.
\<close>

definition validate_file_size :: "FileValidator \<Rightarrow> filesystem \<Rightarrow> string \<Rightarrow> unit res" where
  "validate_file_size self d file_path =
     bindR (os_path_getsize d file_path) (\<lambda>file_size.
     if int file_size > max_file_size_bytes self then
       bindR (truediv_MB (max_file_size_bytes self)) (\<lambda>max_mb.
       bindR (truediv_MB (int file_size)) (\<lambda>actual_mb.
       Inl (Exc FileSizeExceededError
         (''File size '' @ format_2f actual_mb @ ''MB exceeds maximum allowed size '' @
          format_2f max_mb @ ''MB''))))
     else Inr ())"

definition validate_file_extension :: "python \<Rightarrow> string \<Rightarrow> string res" where
  "validate_file_extension py filename =
     (let file_ext = str_lower py (Path_suffix py filename)
      in if file_ext \<notin> ALLOWED_EXTENSIONS then
           Inl (Exc InvalidFileTypeError
             (''Invalid file type: '' @ file_ext @ ''. Supported: '' @
              str_join '', '' (iter_ALLOWED_EXTENSIONS py)))
         else Inr file_ext)"

text \<open>
  \<^verbatim>\<open>except IOError\<close> catches \<open>OSError\<close> and nothing else; the \<open>InvalidFileTypeError\<close> raised
  inside the \<^verbatim>\<open>try\<close> passes through.
\<close>

definition validate_magic_number :: "filesystem \<Rightarrow> string \<Rightarrow> unit res" where
  "validate_magic_number d file_path =
     (case open_rb_read d file_path 512 of
        Inl e \<Rightarrow>
          if cls e = OSError
          then Inl (Exc InvalidFileTypeError (''Cannot read file for validation: '' @ msg e))
          else Inl e
      | Inr header \<Rightarrow>
          (let is_valid = list_ex (\<lambda>magic_num. sublist magic_num header) STEP_MAGIC_NUMBERS
           in if \<not> is_valid then
                Inl (Exc InvalidFileTypeError
                  ''File content does not match STEP format. Please upload a valid STEP/IGES file.'')
              else Inr ()))"

definition validate_file :: "FileValidator \<Rightarrow> python \<Rightarrow> filesystem \<Rightarrow> string \<Rightarrow> string \<Rightarrow> (string \<times> nat) res" where
  "validate_file self py d file_path filename =
     bindR (validate_file_extension py filename) (\<lambda>file_ext.
     bindR (validate_file_size self d file_path) (\<lambda>u.
     bindR (validate_magic_number d file_path) (\<lambda>u.
     bindR (os_path_getsize d file_path) (\<lambda>file_size.
     Inr (file_ext, file_size)))))"

section \<open>config.py\<close>

text \<open>
  \<^verbatim>\<open>AppConfig\<close>; its field \<^verbatim>\<open>max_file_size_bytes\<close> carries a prefix to keep it apart from
  the validator's. The environment is a map from names to strings.
\<close>

record AppConfig =
  port :: int
  host :: string
  environment :: string
  cors_origins :: "string list"
  cfg_max_file_size_bytes :: int
  rate_limit_per_minute :: int
  linear_deflection :: pyfloat
  angular_deflection :: pyfloat
  temp_dir :: string
  log_level :: string

definition getenv :: "(string \<Rightarrow> string option) \<Rightarrow> string \<Rightarrow> string \<Rightarrow> string" where
  "getenv env name dflt = (case env name of None \<Rightarrow> dflt | Some v \<Rightarrow> v)"

definition from_env :: "python \<Rightarrow> (string \<Rightarrow> string option) \<Rightarrow> AppConfig res" where
  "from_env py env =
     (let cors_origins_str = getenv env ''CORS_ORIGINS'' ''http://localhost:3000'';
          cors_origins = map (str_strip py) (str_split CHR '','' cors_origins_str)
      in
      bindR (int_of_str py (getenv env ''MAX_FILE_SIZE_MB'' ''50'')) (\<lambda>max_file_size_mb.
      let max_file_size_bytes = max_file_size_mb * 1024 * 1024 in
      bindR (float_of_str py (getenv env ''LINEAR_DEFLECTION'' ''0.1'')) (\<lambda>linear_deflection.
      bindR (float_of_str py (getenv env ''ANGULAR_DEFLECTION'' ''0.5'')) (\<lambda>angular_deflection.
      if \<not> (float_le float_0_001 linear_deflection \<and> float_le linear_deflection (Finite 1))
      then Inl (Exc ValueError
             (''LINEAR_DEFLECTION must be between 0.001 and 1.0, got '' @
              float_repr py linear_deflection))
      else if \<not> (float_le float_0_1 angular_deflection \<and> float_le angular_deflection (Finite 1))
      then Inl (Exc ValueError
             (''ANGULAR_DEFLECTION must be between 0.1 and 1.0, got '' @
              float_repr py angular_deflection))
      else
      bindR (int_of_str py (getenv env ''PORT'' ''5000'')) (\<lambda>port.
      bindR (int_of_str py (getenv env ''RATE_LIMIT_PER_MINUTE'' ''10'')) (\<lambda>rate_limit.
      Inr \<lparr>port = port,
           host = getenv env ''HOST'' ''0.0.0.0'',
           environment = getenv env ''NODE_ENV'' ''development'',
           cors_origins = cors_origins,
           cfg_max_file_size_bytes = max_file_size_bytes,
           rate_limit_per_minute = rate_limit,
           linear_deflection = linear_deflection,
           angular_deflection = angular_deflection,
           temp_dir = getenv env ''TMPDIR'' ''/tmp/cad-files'',
           log_level = str_upper py (getenv env ''LOG_LEVEL'' ''info'')\<rparr>))))))"

section \<open>main.py\<close>

text \<open>
  What \<^verbatim>\<open>main.py\<close> does when the service starts. The module builds one global converter,
  \<^verbatim>\<open>converter = StepConverter(linear_deflection=0.1, angular_deflection=0.5)\<close>; its
  \<^verbatim>\<open>__main__\<close> block reads \<^verbatim>\<open>int(os.getenv("PORT", 5000))\<close> and hands the application to
  \<^verbatim>\<open>uvicorn.run\<close> on host \<^verbatim>\<open>0.0.0.0\<close>. It imports nothing from \<^verbatim>\<open>config.py\<close>. The result is
  the server that then takes requests, or the exception that ends the start.
\<close>

record StepConverter =
  sc_linear_deflection :: pyfloat
  sc_angular_deflection :: pyfloat

definition converter :: StepConverter where
  "converter = \<lparr>sc_linear_deflection = float_0_1, sc_angular_deflection = Finite (1 / 2)\<rparr>"

record server =
  srv_host :: string
  srv_port :: int
  srv_converter :: StepConverter

definition main_module :: "python \<Rightarrow> (string \<Rightarrow> string option) \<Rightarrow> server res" where
  "main_module py env =
     bindR (case env ''PORT'' of None \<Rightarrow> Inr 5000 | Some v \<Rightarrow> int_of_str py v) (\<lambda>port.
     Inr \<lparr>srv_host = ''0.0.0.0'', srv_port = port, srv_converter = converter\<rparr>)"

section \<open>Conditions named by the specification\<close>

text \<open>
  The conditions under which the specification says a stage fails, written over the
  outcomes of the kernel calls the stage makes. A kernel call raises when its outcome is
  an exception.
\<close>

definition raises :: "'a res \<Rightarrow> bool" where
  "raises r = (case r of Inl e \<Rightarrow> True | Inr x \<Rightarrow> False)"

text \<open>
  Reading: the file is missing, the read status is not \<^verbatim>\<open>IFSelect_RetDone\<close>, the shape is
  null, or one of the kernel calls raises.
\<close>

definition read_failure_cause :: "kernel \<Rightarrow> string \<Rightarrow> filesystem \<Rightarrow> bool" where
  "read_failure_cause k p d =
     (\<not> os_path_exists d p
      \<or> (case ReadFile k p d of Inr status \<Rightarrow> status \<noteq> IFSelect_RetDone k | Inl e \<Rightarrow> False)
      \<or> (case OneShape k p d of Inr s \<Rightarrow> IsNull k s d = Inr True | Inl e \<Rightarrow> False)
      \<or> raises (STEPControl_Reader k d) \<or> raises (ReadFile k p d)
      \<or> raises (TransferRoots k p d) \<or> raises (OneShape k p d)
      \<or> (case OneShape k p d of
            Inr s \<Rightarrow> raises (IsNull k s d) \<or> raises (ShapeType k s d) | Inl e \<Rightarrow> False))"

text \<open>
  Meshing: the completion flag is false, or one of the kernel calls raises.
\<close>

definition mesh_failure_cause :: "kernel \<Rightarrow> ShapeMesher \<Rightarrow> shape \<Rightarrow> filesystem \<Rightarrow> bool" where
  "mesh_failure_cause k self s d =
     (let mesh = Mesh s (sm_linear_deflection self) False (sm_angular_deflection self) True in
      IsDone k mesh d = Inr False
      \<or> raises (BRepMesh_IncrementalMesh k mesh d) \<or> raises (Perform k mesh d)
      \<or> raises (IsDone k mesh d))"

text \<open>
  Writing: one of the kernel's writer calls raises, or the output path does not exist on
  the disk that \<open>Write\<close> leaves.
\<close>

definition write_failure_cause :: "kernel \<Rightarrow> StlWriter \<Rightarrow> shape \<Rightarrow> string \<Rightarrow> filesystem \<Rightarrow> bool" where
  "write_failure_cause k self s p d =
     (raises (StlAPI_Writer k d) \<or> raises (SetASCIIMode k (ascii_mode self) d)
      \<or> raises (fst (Write k (ascii_mode self) s p d))
      \<or> \<not> os_path_exists (snd (Write k (ascii_mode self) s p d)) p)"

text \<open>
  A header holds a STEP signature.
\<close>

definition has_step_signature :: "string \<Rightarrow> bool" where
  "has_step_signature header =
     (sublist ''ISO-10303-21;'' header \<or> sublist ''ISO-10303-28;'' header)"





section \<open>Test doubles\<close>

text \<open>
  Concrete kernels, disks and a concrete interpreter, on which the functions above are
  evaluated. \<open>kernel_ok\<close> succeeds at every call and writes a file; the others differ from
  it in one call each.
\<close>

definition step_bytes :: string where
  "step_bytes = ''ISO-10303-21;HEADER;ENDSEC;DATA;ENDSEC;END-ISO-10303-21;''"

definition stl_bytes :: string where
  "stl_bytes = ''solid part endsolid part''"

definition disk0 :: filesystem where
  "disk0 = Map.empty(''/tmp/part.step'' \<mapsto> \<lparr>content = step_bytes, open_error = None\<rparr>)"

definition world0 :: world where
  "world0 = \<lparr>disk = disk0, trace = []\<rparr>"

definition kernel_ok :: kernel where
  "kernel_ok =
     \<lparr>IFSelect_RetDone = 1,
      STEPControl_Reader = (\<lambda>d. Inr ()),
      ReadFile = (\<lambda>p d. Inr 1),
      TransferRoots = (\<lambda>p d. Inr 1),
      OneShape = (\<lambda>p d. Inr 5),
      IsNull = (\<lambda>s d. Inr False),
      ShapeType = (\<lambda>s d. Inr 2),
      BRepMesh_IncrementalMesh = (\<lambda>m d. Inr ()),
      Perform = (\<lambda>m d. Inr ()),
      IsDone = (\<lambda>m d. Inr True),
      StlAPI_Writer = (\<lambda>d. Inr ()),
      SetASCIIMode = (\<lambda>a d. Inr ()),
      Write = (\<lambda>a s p d. (Inr True, d(p \<mapsto> \<lparr>content = stl_bytes, open_error = None\<rparr>)))\<rparr>"

definition kernel_null_shape :: kernel where
  "kernel_null_shape = kernel_ok\<lparr>IsNull := (\<lambda>s d. Inr True)\<rparr>"

definition kernel_not_done :: kernel where
  "kernel_not_done = kernel_ok\<lparr>IsDone := (\<lambda>m d. Inr False)\<rparr>"

definition kernel_silent_write :: kernel where
  "kernel_silent_write = kernel_ok\<lparr>Write := (\<lambda>a s p d. (Inr True, d))\<rparr>"

definition kernel_empty_write :: kernel where
  "kernel_empty_write =
     kernel_ok\<lparr>Write := (\<lambda>a s p d. (Inr True, d(p \<mapsto> \<lparr>content = [], open_error = None\<rparr>)))\<rparr>"

definition default_mesher :: ShapeMesher where
  "default_mesher = \<lparr>sm_linear_deflection = Finite (1/10), sm_angular_deflection = Finite (1/2)\<rparr>"

definition binary_writer :: StlWriter where
  "binary_writer = \<lparr>ascii_mode = False\<rparr>"

text \<open>
  The interpreter on ASCII strings: the suffix of a plain file name (no trailing slash),
  case mapping of the letters A to Z, stripping of blanks, decimal integers without sign,
  and the floats of a small table.
\<close>

definition ascii_lower :: "char \<Rightarrow> char" where
  "ascii_lower c =
     (case map_of (zip ''ABCDEFGHIJKLMNOPQRSTUVWXYZ'' ''abcdefghijklmnopqrstuvwxyz'') c of
        Some l \<Rightarrow> l | None \<Rightarrow> c)"

definition ascii_upper :: "char \<Rightarrow> char" where
  "ascii_upper c =
     (case map_of (zip ''abcdefghijklmnopqrstuvwxyz'' ''ABCDEFGHIJKLMNOPQRSTUVWXYZ'') c of
        Some l \<Rightarrow> l | None \<Rightarrow> c)"

definition posix_suffix :: "string \<Rightarrow> string" where
  "posix_suffix filename =
     (let name = rev (takeWhile (\<lambda>c. c \<noteq> CHR ''/'') (rev filename));
          r = takeWhile (\<lambda>c. c \<noteq> CHR ''.'') (rev name)
      in if CHR ''.'' \<notin> set name \<or> r = [] \<or> length name \<le> length r + 1 then []
         else CHR ''.'' # rev r)"

definition strip_spaces :: "string \<Rightarrow> string" where
  "strip_spaces s =
     rev (dropWhile (\<lambda>c. c = CHR '' '') (rev (dropWhile (\<lambda>c. c = CHR '' '') s)))"

fun digits_value :: "string \<Rightarrow> nat \<Rightarrow> nat option" where
  "digits_value [] acc = Some acc"
| "digits_value (c # cs) acc =
     (case map_of (zip ''0123456789'' [0, 1, 2, 3, 4, 5, 6, 7, 8, 9]) c of
        None \<Rightarrow> None | Some v \<Rightarrow> digits_value cs (10 * acc + v))"

definition decimal_int :: "string \<Rightarrow> int res" where
  "decimal_int s =
     (case (if s = [] then None else digits_value s 0) of
        None \<Rightarrow> Inl (Exc ValueError (''invalid literal for int() with base 10: '' @ [CHR 0x27] @ s @ [CHR 0x27]))
      | Some n \<Rightarrow> Inr (int n))"

definition float_table :: "(string \<times> pyfloat) list" where
  "float_table =
     [(''0.001'', float_0_001), (''0.0009'', float_0_0009), (''0.1'', float_0_1),
      (''0.5'', Finite (1/2)), (''1.0'', Finite 1), (''1.1'', float_1_1), (''nan'', NaN)]"

definition table_float :: "string \<Rightarrow> pyfloat res" where
  "table_float s =
     (case map_of float_table s of
        None \<Rightarrow> Inl (Exc ValueError (''could not convert string to float: '' @ [CHR 0x27] @ s @ [CHR 0x27]))
      | Some x \<Rightarrow> Inr x)"

definition table_repr :: "pyfloat \<Rightarrow> string" where
  "table_repr x = (case filter (\<lambda>(s, y). y = x) float_table of [] \<Rightarrow> ''?'' | (s, y) # r \<Rightarrow> s)"

definition cpython :: python where
  "cpython =
     \<lparr>Path_suffix = posix_suffix,
      str_lower = map ascii_lower,
      str_upper = map ascii_upper,
      str_strip = strip_spaces,
      iter_ALLOWED_EXTENSIONS = [''.igs'', ''.step'', ''.stp'', ''.iges''],
      int_of_str = decimal_int,
      float_of_str = table_float,
      float_repr = table_repr\<rparr>"

text \<open>
  Uploaded files: a STEP file, a file that is no STEP file, a file that cannot be opened,
  a file of 60 MB and one of exactly 50 MB. Three validators: a cap of 50 MB, a cap of
  \<open>- 2^1045\<close> bytes, and a cap of \<open>- (2^53 + 1) * 2^20\<close> bytes, whose quotient no double holds
  exactly.
\<close>

definition locked_bytes :: disk_file where
  "locked_bytes =
     \<lparr>content = ''ISO-10303-21;'',
      open_error = Some (Exc OSError ''[Errno 13] Permission denied'')\<rparr>"

definition upload_disk :: filesystem where
  "upload_disk =
     Map.empty(''/tmp/up1'' \<mapsto> \<lparr>content = ''ISO-10303-21;HEADER;'', open_error = None\<rparr>,
               ''/tmp/up2'' \<mapsto> \<lparr>content = ''PK-zip-archive'', open_error = None\<rparr>,
               ''/tmp/up3'' \<mapsto> locked_bytes,
               ''/tmp/big'' \<mapsto> \<lparr>content = replicate 62914560 (CHR ''x''), open_error = None\<rparr>,
               ''/tmp/cap'' \<mapsto> \<lparr>content = replicate 52428800 (CHR ''x''), open_error = None\<rparr>)"

definition validator_50mb :: FileValidator where
  "validator_50mb = \<lparr>max_file_size_bytes = 50 * 1024 * 1024\<rparr>"


definition validator_rounded_cap :: FileValidator where
  "validator_rounded_cap = \<lparr>max_file_size_bytes = - 9444732965739291475968\<rparr>"

definition env_boundary :: "string \<Rightarrow> string option" where
  "env_boundary = map_of [(''LINEAR_DEFLECTION'', ''0.001''), (''ANGULAR_DEFLECTION'', ''1.0'')]"

definition env_too_fine :: "string \<Rightarrow> string option" where
  "env_too_fine = map_of [(''LINEAR_DEFLECTION'', ''0.0009'')]"

section \<open>Properties of services.py\<close>

subsection \<open>Each stage raises its own error class only\<close>

lemmas stage_defs =
  StepReader_read_def StepReader_read_try_def ShapeMesher_mesh_def ShapeMesher_mesh_try_def
  StlWriter_write_def StlWriter_write_try_def catchM_def bindM_def returnM_def raiseM_def
  os_call_def kcall_def kcall_write_def

lemma StepReader_read_cls:
  "StepReader_read k p w = (Inl e, w') \<Longrightarrow> cls e = StepReadError"
  by (auto simp: StepReader_read_def catchM_def raiseM_def split: prod.splits sum.splits if_splits)

lemma ShapeMesher_mesh_cls:
  "ShapeMesher_mesh k m s w = (Inl e, w') \<Longrightarrow> cls e = MeshingError"
  by (auto simp: ShapeMesher_mesh_def catchM_def raiseM_def split: prod.splits sum.splits if_splits)

lemma StlWriter_write_cls:
  "StlWriter_write k wr s out w = (Inl e, w') \<Longrightarrow> cls e = StlWriteError"
  by (auto simp: StlWriter_write_def catchM_def raiseM_def split: prod.splits sum.splits if_splits)

lemma ShapeMesher_mesh_same:
  "ShapeMesher_mesh k m s w = (Inr s', w') \<Longrightarrow> s' = s"
  by (auto simp: ShapeMesher_mesh_def ShapeMesher_mesh_try_def Let_def catchM_def bindM_def returnM_def raiseM_def
       split: prod.splits sum.splits if_splits)

lemma StlWriter_write_path:
  "StlWriter_write k wr s out w = (Inr p, w') \<Longrightarrow> p = out"
  by (auto simp: StlWriter_write_def StlWriter_write_try_def catchM_def bindM_def returnM_def raiseM_def
       split: prod.splits sum.splits if_splits)

lemma convert_any:
  "(\<exists>p' w'. convert self a b w = (Inr p', w')) \<or> (\<exists>m w'. convert self a b w = (Inl (Exc ConversionError m), w'))"
  by (auto simp: convert_def catchM_def raiseM_def split: prod.splits sum.splits)

lemma getsize_exists: "os_path_exists d p \<Longrightarrow> \<exists>n. os_path_getsize d p = Inr n"
  by (auto simp: os_path_exists_def os_path_getsize_def split: option.splits)

subsection \<open>The pipeline boundary\<close>

text \<open>
  C1. \<^verbatim>\<open>ConversionService.convert\<close> over the repository's own stages either returns the
  output STL path, after the read, mesh and write stages succeeded in that order, or raises
  \<open>ConversionError\<close> whose message is \<^verbatim>\<open>"Conversion failed: "\<close> followed by the message of
  the first failing stage's \<open>StepReadError\<close>, \<open>MeshingError\<close> or \<open>StlWriteError\<close>. With any
  injected stages at all, \<open>convert\<close> returns a value or raises \<open>ConversionError\<close>, nothing else.
\<close>

theorem convert_returns_path_or_ConversionError:
  "((\<exists>s w1 w2 w3.
       StepReader_read k step w = (Inr s, w1) \<and>
       ShapeMesher_mesh k m s w1 = (Inr s, w2) \<and>
       StlWriter_write k wr s out w2 = (Inr out, w3) \<and>
       convert (service k m wr) step out w = (Inr out, w3))
   \<or> (\<exists>e w'.
       convert (service k m wr) step out w =
         (Inl (Exc ConversionError (''Conversion failed: '' @ msg e)), w') \<and>
       ((StepReader_read k step w = (Inl e, w') \<and> cls e = StepReadError)
        \<or> (\<exists>s w1. StepReader_read k step w = (Inr s, w1) \<and>
              ShapeMesher_mesh k m s w1 = (Inl e, w') \<and> cls e = MeshingError)
        \<or> (\<exists>s w1 w2. StepReader_read k step w = (Inr s, w1) \<and>
              ShapeMesher_mesh k m s w1 = (Inr s, w2) \<and>
              StlWriter_write k wr s out w2 = (Inl e, w') \<and> cls e = StlWriteError))))
   \<and> ((\<exists>p w'. convert self step out w = (Inr p, w'))
      \<or> (\<exists>t w'. convert self step out w = (Inl (Exc ConversionError t), w')))"
proof -
  obtain r1 w1 where R: "StepReader_read k step w = (r1, w1)" by (cases "StepReader_read k step w")
  have A: "?thesis" if "r1 = Inl e" for e
    using that R StepReader_read_cls[of k step w e w1] convert_any[of self step out w]
    by (simp add: convert_def service_def catchM_def bindM_def raiseM_def)
  have B: "?thesis" if s: "r1 = Inr s" for s
  proof -
    obtain r2 w2 where M: "ShapeMesher_mesh k m s w1 = (r2, w2)" by (cases "ShapeMesher_mesh k m s w1")
    show ?thesis
    proof (cases r2)
      case (Inl e)
      then show ?thesis using s R M ShapeMesher_mesh_cls[of k m s w1 e w2] convert_any[of self step out w]
        by (simp add: convert_def service_def catchM_def bindM_def raiseM_def)
    next
      case (Inr s')
      with M have s': "s' = s" using ShapeMesher_mesh_same by blast
      obtain r3 w3 where W: "StlWriter_write k wr s out w2 = (r3, w3)" by (cases "StlWriter_write k wr s out w2")
      show ?thesis
      proof (cases r3)
        case (Inl e)
        then show ?thesis using s s' R M W Inr StlWriter_write_cls[of k wr s out w2 e w3] convert_any[of self step out w]
          by (simp add: convert_def service_def catchM_def bindM_def raiseM_def)
      next
        case (Inr p)
        with W have "p = out" using StlWriter_write_path by blast
        then show ?thesis using s s' R M W Inr \<open>r2 = Inr s'\<close> convert_any[of self step out w]
          by (simp add: convert_def service_def catchM_def bindM_def raiseM_def returnM_def)
      qed
    qed
  qed
  show ?thesis using A B by (cases r1) auto
qed

subsection \<open>StepReader.read\<close>

lemma read_ok:
  assumes "\<not> read_failure_cause k p (disk w)"
  shows "\<exists>s w'. StepReader_read k p w = (Inr s, w') \<and> OneShape k p (disk w) = Inr s \<and> IsNull k s (disk w) = Inr False"
proof -
  let ?d = "disk w"
  from assms have ex: "os_path_exists ?d p" by (simp add: read_failure_cause_def)
  then obtain n where n: "os_path_getsize ?d p = Inr n" using getsize_exists by blast
  from assms obtain u where u: "STEPControl_Reader k ?d = Inr u"
    by (cases "STEPControl_Reader k ?d") (auto simp: read_failure_cause_def raises_def)
  from assms have st: "ReadFile k p ?d = Inr (IFSelect_RetDone k)"
    by (cases "ReadFile k p ?d") (auto simp: read_failure_cause_def raises_def)
  from assms obtain nb where nb: "TransferRoots k p ?d = Inr nb"
    by (cases "TransferRoots k p ?d") (auto simp: read_failure_cause_def raises_def)
  from assms obtain s where s: "OneShape k p ?d = Inr s"
    by (cases "OneShape k p ?d") (auto simp: read_failure_cause_def raises_def)
  from assms s have nl: "IsNull k s ?d = Inr False"
    by (cases "IsNull k s ?d") (auto simp: read_failure_cause_def raises_def)
  from assms s obtain t where t: "ShapeType k s ?d = Inr t"
    by (cases "ShapeType k s ?d") (auto simp: read_failure_cause_def raises_def)
  show ?thesis using ex n u st nb s nl t
    by (simp add: StepReader_read_def StepReader_read_try_def catchM_def bindM_def returnM_def
        raiseM_def os_call_def kcall_def)
qed

lemma read_success_no_cause:
  assumes "StepReader_read k p w = (Inr s, w')"
  shows "\<not> read_failure_cause k p (disk w)"
  using assms
  by (auto simp: StepReader_read_def StepReader_read_try_def catchM_def bindM_def returnM_def
        raiseM_def os_call_def kcall_def read_failure_cause_def raises_def
        split: prod.splits sum.splits if_splits)

lemma read_total: "\<exists>r w'. StepReader_read k p w = (r, w')"
  by (cases "StepReader_read k p w") auto

text \<open>
  C6. \<^verbatim>\<open>StepReader.read\<close> raises \<open>StepReadError\<close> exactly when the file is missing, the
  kernel's read status is not done, the shape is null or a kernel call raises (the
  exception is wrapped); in every other case it returns the kernel's shape, which is not
  null.
\<close>

theorem StepReader_read_contract:
  "(read_failure_cause k p (disk w) \<and>
      (\<exists>e w'. StepReader_read k p w = (Inl e, w') \<and> cls e = StepReadError))
   \<or> (\<not> read_failure_cause k p (disk w) \<and>
      (\<exists>s w'. StepReader_read k p w = (Inr s, w') \<and> OneShape k p (disk w) = Inr s \<and>
         IsNull k s (disk w) = Inr False))"
proof (cases "read_failure_cause k p (disk w)")
  case True
  obtain r w' where r: "StepReader_read k p w = (r, w')" using read_total by blast
  show ?thesis
  proof (cases r)
    case (Inl e)
    then show ?thesis using True r StepReader_read_cls by blast
  next
    case (Inr s)
    then show ?thesis using True r read_success_no_cause by blast
  qed
next
  case False
  then show ?thesis using read_ok by blast
qed

text \<open>
  On a kernel that yields a null shape the read raises \<open>StepReadError\<close>; on a kernel that
  succeeds it returns a shape that is not null.
\<close>

theorem StepReader_read_contract_witness:
  "(\<exists>e w'. StepReader_read kernel_null_shape ''/tmp/part.step'' world0 = (Inl e, w') \<and> cls e = StepReadError)
   \<and> (\<exists>s w'. StepReader_read kernel_ok ''/tmp/part.step'' world0 = (Inr s, w')
          \<and> IsNull kernel_ok s (disk world0) = Inr False)"
proof -
  have c: "read_failure_cause kernel_null_shape ''/tmp/part.step'' (disk world0)"
    by (simp add: read_failure_cause_def kernel_null_shape_def kernel_ok_def)
  have n: "\<not> read_failure_cause kernel_ok ''/tmp/part.step'' (disk world0)"
    by (simp add: read_failure_cause_def kernel_ok_def raises_def world0_def disk0_def os_path_exists_def)
  show ?thesis
    using c n StepReader_read_contract [of kernel_null_shape "''/tmp/part.step''" world0]
      StepReader_read_contract [of kernel_ok "''/tmp/part.step''" world0]
    by blast
qed

subsection \<open>ShapeMesher.mesh\<close>

lemma mesh_ok:
  assumes "\<not> mesh_failure_cause k self s (disk w)"
  shows "\<exists>w'. ShapeMesher_mesh k self s w = (Inr s, w')"
proof -
  let ?m = "Mesh s (sm_linear_deflection self) False (sm_angular_deflection self) True"
  let ?d = "disk w"
  from assms obtain u where u: "BRepMesh_IncrementalMesh k ?m ?d = Inr u"
    by (cases "BRepMesh_IncrementalMesh k ?m ?d") (auto simp: mesh_failure_cause_def raises_def Let_def)
  from assms obtain v where v: "Perform k ?m ?d = Inr v"
    by (cases "Perform k ?m ?d") (auto simp: mesh_failure_cause_def raises_def Let_def)
  from assms have dn: "IsDone k ?m ?d = Inr True"
    by (cases "IsDone k ?m ?d") (auto simp: mesh_failure_cause_def raises_def Let_def)
  show ?thesis using u v dn by (simp add: stage_defs Let_def)
qed

lemma mesh_success_no_cause:
  assumes "ShapeMesher_mesh k self s w = (Inr s', w')"
  shows "\<not> mesh_failure_cause k self s (disk w)"
  using assms
  by (auto simp: stage_defs mesh_failure_cause_def raises_def Let_def
        split: prod.splits sum.splits if_splits)

lemma mesh_trace:
  "\<exists>rest. trace (snd (ShapeMesher_mesh k self s w)) =
     trace w @ C_BRepMesh_IncrementalMesh
       (Mesh s (sm_linear_deflection self) False (sm_angular_deflection self) True) # rest \<and>
     list_all (absolute_mesh_call (sm_linear_deflection self)) rest"
  by (auto simp: stage_defs Let_def split: prod.splits sum.splits if_splits)

text \<open>
  C7. \<^verbatim>\<open>ShapeMesher.mesh\<close> raises \<open>MeshingError\<close> exactly when \<^verbatim>\<open>IsDone\<close> is false or a
  kernel call raises (wrapped); otherwise it returns the shape it was given. The first
  kernel call it makes constructs the mesh object with the mesher's linear deflection and
  the relative flag \<open>False\<close>, and every call it makes is of that kind or constructs nothing.
\<close>

theorem ShapeMesher_mesh_contract:
  "((mesh_failure_cause k self s (disk w) \<and>
       (\<exists>e w'. ShapeMesher_mesh k self s w = (Inl e, w') \<and> cls e = MeshingError))
    \<or> (\<not> mesh_failure_cause k self s (disk w) \<and>
       (\<exists>w'. ShapeMesher_mesh k self s w = (Inr s, w'))))
   \<and> (\<exists>rest. trace (snd (ShapeMesher_mesh k self s w)) =
         trace w @ C_BRepMesh_IncrementalMesh
           (Mesh s (sm_linear_deflection self) False (sm_angular_deflection self) True) # rest \<and>
         list_all (absolute_mesh_call (sm_linear_deflection self)) rest)"
proof -
  obtain r w' where r: "ShapeMesher_mesh k self s w = (r, w')"
    by (cases "ShapeMesher_mesh k self s w") auto
  have "(mesh_failure_cause k self s (disk w) \<and>
       (\<exists>e w'. ShapeMesher_mesh k self s w = (Inl e, w') \<and> cls e = MeshingError))
    \<or> (\<not> mesh_failure_cause k self s (disk w) \<and>
       (\<exists>w'. ShapeMesher_mesh k self s w = (Inr s, w')))"
  proof (cases "mesh_failure_cause k self s (disk w)")
    case True
    show ?thesis
    proof (cases r)
      case (Inl e)
      then show ?thesis using True r ShapeMesher_mesh_cls by blast
    next
      case (Inr s')
      then show ?thesis using True r mesh_success_no_cause by blast
    qed
  next
    case False
    then show ?thesis using mesh_ok by blast
  qed
  then show ?thesis using mesh_trace by blast
qed

text \<open>
  A kernel whose completion flag is false makes \<open>mesh\<close> raise; \<open>kernel_ok\<close> makes it return
  the shape.
\<close>

theorem ShapeMesher_mesh_contract_witness:
  "(\<exists>e w'. ShapeMesher_mesh kernel_not_done default_mesher 5 world0 = (Inl e, w') \<and>
       cls e = MeshingError)
   \<and> (\<exists>w'. ShapeMesher_mesh kernel_ok default_mesher 5 world0 = (Inr 5, w'))"
proof -
  have c: "mesh_failure_cause kernel_not_done default_mesher 5 (disk world0)"
    by (simp add: mesh_failure_cause_def kernel_not_done_def kernel_ok_def)
  have n: "\<not> mesh_failure_cause kernel_ok default_mesher 5 (disk world0)"
    by (simp add: mesh_failure_cause_def kernel_ok_def raises_def)
  show ?thesis
    using c n ShapeMesher_mesh_contract [of kernel_not_done default_mesher 5 world0]
      ShapeMesher_mesh_contract [of kernel_ok default_mesher 5 world0]
    by blast
qed

subsection \<open>StlWriter.write\<close>

lemma write_ok:
  assumes "\<not> write_failure_cause k self s p (disk w)"
  shows "\<exists>w'. StlWriter_write k self s p w = (Inr p, w') \<and>
           disk w' = snd (Write k (ascii_mode self) s p (disk w)) \<and> os_path_exists (disk w') p"
proof -
  let ?d = "disk w"
  obtain r d' where W: "Write k (ascii_mode self) s p ?d = (r, d')"
    by (cases "Write k (ascii_mode self) s p ?d") auto
  from assms obtain u where u: "StlAPI_Writer k ?d = Inr u"
    by (cases "StlAPI_Writer k ?d") (auto simp: write_failure_cause_def raises_def)
  from assms obtain v where v: "SetASCIIMode k (ascii_mode self) ?d = Inr v"
    by (cases "SetASCIIMode k (ascii_mode self) ?d") (auto simp: write_failure_cause_def raises_def)
  from assms W obtain b where b: "r = Inr b"
    by (cases r) (auto simp: write_failure_cause_def raises_def)
  from assms W have ex: "os_path_exists d' p" by (simp add: write_failure_cause_def)
  then obtain n where n: "os_path_getsize d' p = Inr n" using getsize_exists by blast
  show ?thesis using W u v b ex n by (simp add: stage_defs)
qed

lemma write_success_no_cause:
  assumes "StlWriter_write k self s p w = (Inr p', w')"
  shows "\<not> write_failure_cause k self s p (disk w)"
  using assms
  by (auto simp: stage_defs write_failure_cause_def raises_def
        split: prod.splits sum.splits if_splits)

text \<open>
  C2, as the code has it. \<^verbatim>\<open>StlWriter.write\<close> raises \<open>StlWriteError\<close> exactly when one of
  the kernel's writer calls raises or the output path does not exist after \<open>Write\<close>;
  otherwise it returns the output path, and that path exists on the disk \<open>Write\<close> left.
  Nothing is said about the length of the file: the code reads it for the log only.
\<close>

theorem StlWriter_write_contract:
  "(write_failure_cause k self s p (disk w) \<and>
      (\<exists>e w'. StlWriter_write k self s p w = (Inl e, w') \<and> cls e = StlWriteError))
   \<or> (\<not> write_failure_cause k self s p (disk w) \<and>
      (\<exists>w'. StlWriter_write k self s p w = (Inr p, w') \<and>
         disk w' = snd (Write k (ascii_mode self) s p (disk w)) \<and> os_path_exists (disk w') p))"
proof (cases "write_failure_cause k self s p (disk w)")
  case True
  obtain r w' where r: "StlWriter_write k self s p w = (r, w')"
    by (cases "StlWriter_write k self s p w") auto
  show ?thesis
  proof (cases r)
    case (Inl e)
    then show ?thesis using True r StlWriter_write_cls by blast
  next
    case (Inr p')
    then show ?thesis using True r write_success_no_cause by blast
  qed
next
  case False
  then show ?thesis using write_ok by blast
qed

text \<open>
  A kernel whose \<open>Write\<close> reports no error and produces nothing makes \<open>write\<close> raise;
  with \<open>kernel_ok\<close> the path is returned and exists.
\<close>

theorem StlWriter_write_contract_witness:
  "(\<exists>e w'. StlWriter_write kernel_silent_write binary_writer 5 ''/tmp/part.stl'' world0 = (Inl e, w')
       \<and> cls e = StlWriteError)
   \<and> (\<exists>w'. StlWriter_write kernel_ok binary_writer 5 ''/tmp/part.stl'' world0 =
         (Inr ''/tmp/part.stl'', w') \<and> os_path_exists (disk w') ''/tmp/part.stl'')"
proof -
  have c: "write_failure_cause kernel_silent_write binary_writer 5 ''/tmp/part.stl'' (disk world0)"
    by (simp add: write_failure_cause_def kernel_silent_write_def kernel_ok_def world0_def
        disk0_def os_path_exists_def)
  have n: "\<not> write_failure_cause kernel_ok binary_writer 5 ''/tmp/part.stl'' (disk world0)"
    by (simp add: write_failure_cause_def kernel_ok_def raises_def os_path_exists_def)
  show ?thesis
    using c n StlWriter_write_contract [of kernel_silent_write binary_writer 5 "''/tmp/part.stl''" world0]
      StlWriter_write_contract [of kernel_ok binary_writer 5 "''/tmp/part.stl''" world0]
    by blast
qed

text \<open>
  C2, as stated, fails: when the kernel's \<open>Write\<close> leaves an empty file, \<open>write\<close> returns
  the path although the file has length 0.
\<close>

theorem StlWriter_write_empty_artifact:
  "fst (StlWriter_write kernel_empty_write binary_writer 5 ''/tmp/part.stl'' world0) =
     Inr ''/tmp/part.stl''
   \<and> os_path_getsize
       (disk (snd (StlWriter_write kernel_empty_write binary_writer 5 ''/tmp/part.stl'' world0)))
       ''/tmp/part.stl'' = Inr 0"
  by (simp add: stage_defs kernel_empty_write_def kernel_ok_def binary_writer_def world0_def
      disk0_def os_path_exists_def os_path_getsize_def)

subsection \<open>A failed read stops the pipeline\<close>

lemma read_disk_trace:
  "StepReader_read k p w = (r, w') \<Longrightarrow>
     disk w' = disk w \<and> (\<exists>new. trace w' = trace w @ new \<and> list_all is_reader_call new)"
  by (auto simp: stage_defs split: prod.splits sum.splits if_splits)

lemma read_eval:
  "StepReader_read kernel_null_shape ''/tmp/part.step'' world0 =
     (Inl (Exc StepReadError ''STEP file contains no valid shapes''),
      \<lparr>disk = disk0, trace = [C_STEPControl_Reader, C_ReadFile ''/tmp/part.step'', C_TransferRoots, C_OneShape, C_IsNull 5]\<rparr>)"
  by (simp add: stage_defs kernel_null_shape_def kernel_ok_def world0_def disk0_def os_path_exists_def os_path_getsize_def)

text \<open>
  C9. When the read stage raises, \<open>convert\<close> raises \<open>ConversionError\<close> carrying the read's
  message, whatever mesher and writer were injected: they are not run. The state is the
  one the reader left: the disk is unchanged and only reader calls were added to the trace
  of kernel calls.
\<close>

theorem read_failure_stops_pipeline:
  assumes "StepReader_read k step w = (Inl e, w1)"
  shows "convert \<lparr>step_reader = StepReader_read k, shape_mesher = mesher, stl_writer = writer\<rparr>
           step out w = (Inl (Exc ConversionError (''Conversion failed: '' @ msg e)), w1)
         \<and> convert (service k m wr) step out w =
             (Inl (Exc ConversionError (''Conversion failed: '' @ msg e)), w1)
         \<and> cls e = StepReadError
         \<and> disk w1 = disk w
         \<and> (\<exists>new. trace w1 = trace w @ new \<and> list_all is_reader_call new)"
  using assms StepReader_read_cls[OF assms] read_disk_trace[OF assms]
  by (simp add: convert_def service_def catchM_def bindM_def raiseM_def)

text \<open>
  The null-shape case: the kernel calls made are those of the reader, and no STL file
  exists afterwards.
\<close>

theorem read_failure_stops_pipeline_witness:
  "convert (service kernel_null_shape default_mesher binary_writer)
       ''/tmp/part.step'' ''/tmp/part.stl'' world0 =
     (Inl (Exc ConversionError (''Conversion failed: STEP file contains no valid shapes'')),
      \<lparr>disk = disk0,
       trace = [C_STEPControl_Reader, C_ReadFile ''/tmp/part.step'', C_TransferRoots,
                C_OneShape, C_IsNull 5]\<rparr>)
   \<and> os_path_exists disk0 ''/tmp/part.stl'' = False"
  using read_failure_stops_pipeline [OF read_eval,
      of "ShapeMesher_mesh kernel_ok default_mesher" "StlWriter_write kernel_ok binary_writer"
        "''/tmp/part.stl''" default_mesher binary_writer]
  by (simp add: world0_def disk0_def os_path_exists_def)

section \<open>Properties of validators.py\<close>

lemma lower_suffix_txt: "str_lower cpython (Path_suffix cpython ''part.step.txt'') = ''.txt''"
  by (simp add: cpython_def posix_suffix_def ascii_lower_def)

lemma lower_suffix_STEP: "str_lower cpython (Path_suffix cpython ''Bracket.v2.STEP'') = ''.step''"
  by (simp add: cpython_def posix_suffix_def ascii_lower_def)

lemma list_ex_magic: "list_ex (\<lambda>m. sublist m h) STEP_MAGIC_NUMBERS = has_step_signature h"
  by (simp add: STEP_MAGIC_NUMBERS_def has_step_signature_def)

lemma bit_length_le: "n < 2 ^ k \<Longrightarrow> bit_length n \<le> k"
proof (induction k arbitrary: n)
  case 0
  then show ?case by (simp add: bit_length.simps)
next
  case (Suc k)
  show ?case
  proof (cases "n = 0")
    case True
    then show ?thesis by (simp add: bit_length.simps)
  next
    case False
    from Suc.prems have "n div 2 < 2 ^ k" by simp
    then have "bit_length (n div 2) \<le> k" by (rule Suc.IH)
    with False show ?thesis by (subst bit_length.simps) simp
  qed
qed

lemma bit_length_upper: "n < 2 ^ bit_length n"
proof (induction n rule: bit_length.induct)
  case (1 n)
  show ?case
  proof (cases "n = 0")
    case True
    then show ?thesis by simp
  next
    case False
    with 1 have "n div 2 < 2 ^ bit_length (n div 2)" by simp
    then have "n < 2 * 2 ^ bit_length (n div 2)" by linarith
    with False show ?thesis by (subst bit_length.simps) simp
  qed
qed

lemma bit_length_lower: "0 < n \<Longrightarrow> 2 ^ (bit_length n - 1) \<le> n"
proof (induction n rule: bit_length.induct)
  case (1 n)
  show ?case
  proof (cases "n div 2 = 0")
    case True
    with 1 have "n = 1" by linarith
    then show ?thesis by (simp add: bit_length.simps)
  next
    case False
    with 1 have ih: "2 ^ (bit_length (n div 2) - 1) \<le> n div 2" by simp
    from False have pos: "0 < bit_length (n div 2)" by (subst bit_length.simps) simp
    have "bit_length n = Suc (bit_length (n div 2))" using 1(2) by (subst bit_length.simps) simp
    then have "2 ^ (bit_length n - 1) = 2 * 2 ^ (bit_length (n div 2) - 1)"
      using pos by (cases "bit_length (n div 2)") simp_all
    also have "\<dots> \<le> 2 * (n div 2)" using ih by simp
    also have "\<dots> \<le> n" by simp
    finally show ?thesis .
  qed
qed

lemma round53_exact: "\<bar>n\<bar> < 2 ^ 53 \<Longrightarrow> round53 n = n"
proof -
  assume "\<bar>n\<bar> < 2 ^ 53"
  then have "nat \<bar>n\<bar> < 2 ^ 53" by (simp add: nat_less_iff)
  then have "bit_length (nat \<bar>n\<bar>) \<le> 53" by (rule bit_length_le)
  then show ?thesis by (simp add: round53_def Let_def)
qed

lemma round_to_multiple_props:
  fixes a e :: nat
  assumes e: "e = bit_length a - 53" and pos: "0 < e"
  shows "round_to_multiple a e \<le> 2 ^ bit_length a"
    and "\<bar>int (round_to_multiple a e) - int a\<bar> * 2 ^ 53 \<le> int a"
proof -
  define q where "q = a div 2 ^ e"
  define r where "r = a mod 2 ^ e"
  define h where "h = (2::nat) ^ (e - 1)"
  define q' where "q' = (if r < h then q else if h < r then q + 1 else if even q then q else q + 1)"
  have rm: "round_to_multiple a e = q' * 2 ^ e"
    by (simp add: round_to_multiple_def Let_def q_def r_def h_def q'_def)
  from e pos have bl: "bit_length a = e + 53" by simp
  have a_lt: "a < 2 ^ (e + 53)" using bit_length_upper[of a] bl by simp
  have "a < 2 ^ 53 * 2 ^ e" using a_lt by (simp add: power_add mult.commute)
  then have "q < 2 ^ 53" unfolding q_def by (simp add: less_mult_imp_div_less)
  then have "q' \<le> 2 ^ 53" unfolding q'_def by auto
  then have "q' * 2 ^ e \<le> 2 ^ 53 * 2 ^ e" by simp
  then show "round_to_multiple a e \<le> 2 ^ bit_length a"
    by (simp add: rm bl power_add mult.commute)
  have a_eq: "a = q * 2 ^ e + r" using div_mult_mod_eq[of a "2 ^ e"] by (simp add: q_def r_def)
  have r_lt: "r < 2 ^ e" unfolding r_def by simp
  have two_h: "2 ^ e = 2 * h" unfolding h_def using pos by (cases e) simp_all
  have diff: "\<bar>int (q' * 2 ^ e) - int a\<bar> \<le> int h"
  proof -
    define X where "X = int q * (2 * int h)"
    have "a = q * (2 * h) + r" using a_eq two_h by simp
    then have "int a = int (q * (2 * h) + r)" by (rule arg_cong)
    then have ia: "int a = X + int r" by (simp add: X_def)
    have rl: "int r < 2 * int h" using r_lt two_h by linarith
    have c: "(r < h \<and> q' = q) \<or> (h < r \<and> q' = q + 1) \<or> (r = h \<and> (q' = q \<or> q' = q + 1))"
      unfolding q'_def by auto
    have "q * 2 ^ e = q * (2 * h)" using two_h by simp
    then have "int (q * 2 ^ e) = int (q * (2 * h))" by (rule arg_cong)
    then have same: "int (q * 2 ^ e) = X" by (simp add: X_def)
    have up: "int ((q + 1) * 2 ^ e) = X + 2 * int h"
    proof -
      have "(q + 1) * 2 ^ e = q * 2 ^ e + 2 * h" using two_h by (simp add: algebra_simps)
      then have "int ((q + 1) * 2 ^ e) = int (q * 2 ^ e) + 2 * int h" by simp
      with same show ?thesis by simp
    qed
    from c show ?thesis
    proof (elim disjE conjE)
      assume "r < h" "q' = q"
      then show ?thesis using ia same by simp
    next
      assume "h < r" "q' = q + 1"
      then show ?thesis using ia up rl by simp
    next
      assume "r = h" "q' = q"
      then show ?thesis using ia same by simp
    next
      assume "r = h" "q' = q + 1"
      then show ?thesis using ia up by simp
    qed
  qed
  have "a \<noteq> 0"
  proof
    assume "a = 0"
    then have "bit_length a = 0" by (simp add: bit_length.simps)
    with e pos show False by simp
  qed
  then have "0 < a" by simp
  then have "2 ^ (bit_length a - 1) \<le> a" by (rule bit_length_lower)
  then have "2 ^ (e + 52) \<le> a" by (simp add: bl add.commute)
  moreover have "(2::nat) ^ (e + 52) = h * 2 ^ 53"
    unfolding h_def using pos by (cases e) (simp_all add: power_add)
  ultimately have "h * 2 ^ 53 \<le> a" by simp
  then have "int (h * 2 ^ 53) \<le> int a" by (simp only: of_nat_le_iff)
  then have "int h * 2 ^ 53 \<le> int a" by simp
  moreover have "\<bar>int (q' * 2 ^ e) - int a\<bar> * 2 ^ 53 \<le> int h * 2 ^ 53"
    using diff by simp
  ultimately show "\<bar>int (round_to_multiple a e) - int a\<bar> * 2 ^ 53 \<le> int a"
    unfolding rm by linarith
qed

lemma round53_abs:
  "(bit_length (nat \<bar>n\<bar>) \<le> 53 \<and> round53 n = n)
   \<or> (\<exists>m. round53 n = sgn n * int m \<and> m \<le> 2 ^ bit_length (nat \<bar>n\<bar>)
          \<and> \<bar>int m - \<bar>n\<bar>\<bar> * 2 ^ 53 \<le> \<bar>n\<bar>)"
proof (cases "bit_length (nat \<bar>n\<bar>) - 53 = 0")
  case True
  then show ?thesis by (simp add: round53_def Let_def)
next
  case False
  define a where "a = nat \<bar>n\<bar>"
  define e where "e = bit_length a - 53"
  from False have pos: "0 < e" by (simp add: e_def a_def)
  have ia: "int a = \<bar>n\<bar>" by (simp add: a_def)
  have r: "round53 n = sgn n * int (round_to_multiple a e)"
    using False by (simp add: round53_def Let_def a_def e_def)
  show ?thesis
    using round_to_multiple_props[OF e_def pos] r ia a_def by auto
qed


lemma round53_bound: "\<bar>n\<bar> < 2 ^ 1043 \<Longrightarrow> \<bar>round53 n\<bar> < 2 ^ 1044"
proof -
  assume b: "\<bar>n\<bar> < 2 ^ 1043"
  then have "nat \<bar>n\<bar> < 2 ^ 1043" by (simp add: nat_less_iff)
  then have bl: "bit_length (nat \<bar>n\<bar>) \<le> 1043" by (rule bit_length_le)
  from round53_abs[of n] show ?thesis
  proof
    assume "bit_length (nat \<bar>n\<bar>) \<le> 53 \<and> round53 n = n"
    with b show ?thesis by simp
  next
    assume "\<exists>m. round53 n = sgn n * int m \<and> m \<le> 2 ^ bit_length (nat \<bar>n\<bar>)
          \<and> \<bar>int m - \<bar>n\<bar>\<bar> * 2 ^ 53 \<le> \<bar>n\<bar>"
    then obtain m where m: "round53 n = sgn n * int m" "m \<le> 2 ^ bit_length (nat \<bar>n\<bar>)" by blast
    have "(2::nat) ^ bit_length (nat \<bar>n\<bar>) \<le> 2 ^ 1043" using bl by (rule power_increasing) simp
    with m(2) have "m \<le> 2 ^ 1043" by linarith
    then have "int m \<le> int (2 ^ 1043)" by (simp only: of_nat_le_iff)
    then have "int m \<le> 2 ^ 1043" by simp
    moreover have "\<bar>sgn n * int m\<bar> \<le> int m" by (simp add: abs_mult sgn_if)
    ultimately show ?thesis using m(1) by simp
  qed
qed

lemma truediv_in_range: "\<bar>n\<bar> < 2 ^ 1043 \<Longrightarrow> truediv_MB n = Inr (float_MB n)"
proof -
  assume "\<bar>n\<bar> < 2 ^ 1043"
  then have "\<bar>round53 n\<bar> < 2 ^ 1044" by (rule round53_bound)
  then have "\<not> 2 ^ 1044 \<le> \<bar>round53 n\<bar>" by (simp only: not_le)
  then show ?thesis by (simp only: truediv_MB_def if_False)
qed


lemma float_MB_exact: "\<bar>n\<bar> < 2 ^ 53 \<Longrightarrow> float_MB n = real_of_int n / (1024 * 1024)"
  by (simp add: float_MB_def round53_exact)


lemma bit_length_eq: "2 ^ k \<le> n \<Longrightarrow> n < 2 ^ Suc k \<Longrightarrow> bit_length n = Suc k"
proof -
  assume lo: "2 ^ k \<le> n" and hi: "n < 2 ^ Suc k"
  from hi have "bit_length n \<le> Suc k" by (rule bit_length_le)
  moreover have "(2::nat) ^ k < 2 ^ bit_length n" using lo bit_length_upper[of n] by linarith
  then have "k < bit_length n" by (rule power_less_imp_less_exp[rotated]) simp
  ultimately show ?thesis by linarith
qed

lemma bit_length_rounded_cap: "bit_length 9444732965739291475968 = 74"
proof -
  have "bit_length 9444732965739291475968 = Suc 73" by (rule bit_length_eq) simp_all
  then show ?thesis by simp
qed

lemma round53_tie_to_even: "round53 (- 9444732965739291475968) = - 9444732965739290427392"
  by (simp add: round53_def Let_def bit_length_rounded_cap round_to_multiple_def)











lemma format_rounded_cap:
  "format_2f (float_MB (- 9444732965739291475968)) = ''-9007199254740992.00''"
  by (simp add: float_MB_def round53_tie_to_even format_2f_def round_half_even_def
      show_nat.simps)

lemma format_20_bytes: "format_2f (float_MB 20) = ''0.00''"
  by (simp add: float_MB_exact format_2f_def round_half_even_def show_nat.simps)

lemma rounded_cap_message:
  "validate_file_size validator_rounded_cap upload_disk ''/tmp/up1'' =
     Inl (Exc FileSizeExceededError
       ''File size 0.00MB exceeds maximum allowed size -9007199254740992.00MB'')"
proof -
  have g: "os_path_getsize upload_disk ''/tmp/up1'' = Inr 20"
    by (simp add: os_path_getsize_def upload_disk_def)
  have c: "truediv_MB (- 9444732965739291475968) = Inr (float_MB (- 9444732965739291475968))"
    by (rule truediv_in_range) simp
  have a: "truediv_MB 20 = Inr (float_MB 20)"
    by (rule truediv_in_range) simp
  show ?thesis using g c a format_rounded_cap format_20_bytes
    by (simp add: validate_file_size_def bindR_def validator_rounded_cap_def)
qed



text \<open>
  C3. A file name whose lowercase suffix is not an allowed extension makes
  \<^verbatim>\<open>validate_file\<close> raise \<open>InvalidFileTypeError\<close>, with one and the same message for every
  disk, path and size cap: neither the size nor the content of the file is looked at.
\<close>

theorem bad_extension_rejected_first:
  assumes "str_lower py (Path_suffix py filename) \<notin> ALLOWED_EXTENSIONS"
  shows "\<exists>m. \<forall>self d file_path.
           validate_file self py d file_path filename = Inl (Exc InvalidFileTypeError m)"
  using assms by (auto simp: validate_file_def validate_file_extension_def bindR_def Let_def)

text \<open>
  The name \<^verbatim>\<open>part.step.txt\<close> is rejected alike for a valid STEP file and on an empty disk.
\<close>

theorem bad_extension_rejected_first_witness:
  "\<exists>m. validate_file validator_50mb cpython upload_disk ''/tmp/up1'' ''part.step.txt'' =
         Inl (Exc InvalidFileTypeError m)
       \<and> validate_file validator_50mb cpython Map.empty ''/tmp/up1'' ''part.step.txt'' =
         Inl (Exc InvalidFileTypeError m)"
proof -
  have "str_lower cpython (Path_suffix cpython ''part.step.txt'') \<notin> ALLOWED_EXTENSIONS"
    by (simp add: lower_suffix_txt ALLOWED_EXTENSIONS_def)
  from bad_extension_rejected_first [OF this] show ?thesis by blast
qed

text \<open>
  C4. For a readable file within the size cap and with an allowed extension,
  \<^verbatim>\<open>validate_file\<close> returns the lowercase extension and the size in bytes when the first 512
  bytes hold one of the two STEP signatures, and raises \<open>InvalidFileTypeError\<close> when they
  hold neither.
\<close>

theorem signature_decides_validation:
  assumes "str_lower py (Path_suffix py filename) \<in> ALLOWED_EXTENSIONS"
    and "d file_path = Some f" and "open_error f = None"
    and "int (length (content f)) \<le> max_file_size_bytes self"
  shows "validate_file self py d file_path filename =
           (if has_step_signature (take 512 (content f))
            then Inr (str_lower py (Path_suffix py filename), length (content f))
            else Inl (Exc InvalidFileTypeError
              ''File content does not match STEP format. Please upload a valid STEP/IGES file.''))"
  using assms
  by (simp add: validate_file_def validate_file_extension_def validate_file_size_def
      validate_magic_number_def open_rb_read_def os_path_getsize_def bindR_def Let_def
      list_ex_magic)

text \<open>
  A STEP header of 20 bytes is accepted under the name \<^verbatim>\<open>Bracket.v2.STEP\<close>; an archive
  under the same name is rejected.
\<close>

theorem signature_decides_validation_witness:
  "validate_file validator_50mb cpython upload_disk ''/tmp/up1'' ''Bracket.v2.STEP'' =
     Inr (''.step'', 20)
   \<and> validate_file validator_50mb cpython upload_disk ''/tmp/up2'' ''Bracket.v2.STEP'' =
     Inl (Exc InvalidFileTypeError
       ''File content does not match STEP format. Please upload a valid STEP/IGES file.'')"
proof -
  have e: "str_lower cpython (Path_suffix cpython ''Bracket.v2.STEP'') \<in> ALLOWED_EXTENSIONS"
    by (simp add: lower_suffix_STEP ALLOWED_EXTENSIONS_def)
  have f1: "upload_disk ''/tmp/up1'' = Some \<lparr>content = ''ISO-10303-21;HEADER;'', open_error = None\<rparr>"
    by (simp add: upload_disk_def)
  have f2: "upload_disk ''/tmp/up2'' = Some \<lparr>content = ''PK-zip-archive'', open_error = None\<rparr>"
    by (simp add: upload_disk_def)
  have s1: "has_step_signature (take 512 ''ISO-10303-21;HEADER;'')"
    by (simp add: has_step_signature_def sublist_Cons_right)
  have s2: "\<not> has_step_signature (take 512 ''PK-zip-archive'')"
    by (simp add: has_step_signature_def sublist_Cons_right)
  show ?thesis
    using e f1 f2 s1 s2
      signature_decides_validation [of cpython "''Bracket.v2.STEP''" upload_disk "''/tmp/up1''"
        "\<lparr>content = ''ISO-10303-21;HEADER;'', open_error = None\<rparr>" validator_50mb]
      signature_decides_validation [of cpython "''Bracket.v2.STEP''" upload_disk "''/tmp/up2''"
        "\<lparr>content = ''PK-zip-archive'', open_error = None\<rparr>" validator_50mb]
    by (simp add: validator_50mb_def lower_suffix_STEP)
qed




text \<open>
  C10. When opening or reading the first 512 bytes raises an I/O error,
  \<^verbatim>\<open>validate_magic_number\<close> raises \<open>InvalidFileTypeError\<close> whose message begins with
  \<^verbatim>\<open>Cannot read file for validation\<close>, and so does \<^verbatim>\<open>validate_file\<close> once the extension and
  the size have passed.
\<close>

theorem unreadable_file_is_invalid_type:
  assumes "open_rb_read d file_path 512 = Inl e" and "cls e = OSError"
  shows "validate_magic_number d file_path =
           Inl (Exc InvalidFileTypeError (''Cannot read file for validation: '' @ msg e))
       \<and> (str_lower py (Path_suffix py filename) \<in> ALLOWED_EXTENSIONS \<and>
          validate_file_size self d file_path = Inr () \<longrightarrow>
            validate_file self py d file_path filename =
              Inl (Exc InvalidFileTypeError (''Cannot read file for validation: '' @ msg e)))"
  using assms
  by (simp add: validate_magic_number_def validate_file_def validate_file_extension_def
      bindR_def Let_def)

text \<open>
  A file that exists and cannot be opened.
\<close>

theorem unreadable_file_is_invalid_type_witness:
  "validate_magic_number upload_disk ''/tmp/up3'' =
     Inl (Exc InvalidFileTypeError
       ''Cannot read file for validation: [Errno 13] Permission denied'')
   \<and> validate_file validator_50mb cpython upload_disk ''/tmp/up3'' ''Bracket.v2.STEP'' =
     Inl (Exc InvalidFileTypeError
       ''Cannot read file for validation: [Errno 13] Permission denied'')"
proof -
  have r: "open_rb_read upload_disk ''/tmp/up3'' 512 = Inl (Exc OSError ''[Errno 13] Permission denied'')"
    by (simp add: open_rb_read_def upload_disk_def locked_bytes_def)
  have e: "str_lower cpython (Path_suffix cpython ''Bracket.v2.STEP'') \<in> ALLOWED_EXTENSIONS"
    by (simp add: lower_suffix_STEP ALLOWED_EXTENSIONS_def)
  have z: "validate_file_size validator_50mb upload_disk ''/tmp/up3'' = Inr ()"
    by (simp add: validate_file_size_def os_path_getsize_def upload_disk_def locked_bytes_def
        validator_50mb_def bindR_def)
  show ?thesis
    using e z unreadable_file_is_invalid_type [OF r, of cpython "''Bracket.v2.STEP''" validator_50mb]
    by simp
qed

section \<open>Properties of config.py\<close>

text \<open>
  C8, as the code has it. Given that the size cap and both deflections parse: \<^verbatim>\<open>from_env\<close> returns a
  configuration for a linear deflection of exactly 0.001 or 1.0 (or anything between)
  and an angular deflection of exactly 0.1 or 1.0 (or anything between), when the port
  and the rate limit parse; it raises \<open>ValueError\<close> for a linear deflection of 0.0009 or
  1.1, and for any linear deflection outside \<open>[0.001, 1.0]\<close> or angular deflection outside
  \<open>[0.1, 1.0]\<close>, NaN included. The start of the service does not call \<^verbatim>\<open>from_env\<close>: a
  server that \<^verbatim>\<open>main.py\<close> starts runs with the deflections 0.1 and 0.5, whatever the
  environment holds.
\<close>

theorem deflection_range_checked_at_load:
  assumes "int_of_str py (getenv env ''MAX_FILE_SIZE_MB'' ''50'') = Inr mb"
    and "float_of_str py (getenv env ''LINEAR_DEFLECTION'' ''0.1'') = Inr l"
    and "float_of_str py (getenv env ''ANGULAR_DEFLECTION'' ''0.5'') = Inr a"
  shows "((l = float_0_001 \<or> l = Finite 1 \<or> (float_le float_0_001 l \<and> float_le l (Finite 1))) \<and>
          (a = float_0_1 \<or> a = Finite 1 \<or> (float_le float_0_1 a \<and> float_le a (Finite 1))) \<and>
          int_of_str py (getenv env ''PORT'' ''5000'') = Inr p \<and>
          int_of_str py (getenv env ''RATE_LIMIT_PER_MINUTE'' ''10'') = Inr rl \<longrightarrow>
            (\<exists>cfg. from_env py env = Inr cfg \<and> linear_deflection cfg = l \<and>
               angular_deflection cfg = a))
       \<and> (l = float_0_0009 \<or> l = float_1_1 \<or>
          \<not> (float_le (Finite (1 / 1000)) l \<and> float_le l (Finite 1)) \<or>
          \<not> (float_le (Finite (1 / 10)) a \<and> float_le a (Finite 1)) \<longrightarrow>
            (\<exists>m. from_env py env = Inl (Exc ValueError m)))
       \<and> (\<forall>srv. main_module py env = Inr srv \<longrightarrow>
            sc_linear_deflection (srv_converter srv) = float_0_1 \<and>
            sc_angular_deflection (srv_converter srv) = Finite (1 / 2))"
proof -
  have le1: "float_le float_0_001 l \<Longrightarrow> float_le (Finite (1 / 1000)) l"
    by (cases l) (simp_all add: float_0_001_def)
  have le2: "float_le float_0_1 a \<Longrightarrow> float_le (Finite (1 / 10)) a"
    by (cases a) (simp_all add: float_0_1_def)
  have b1: "float_le float_0_001 float_0_001" "float_le float_0_001 (Finite 1)"
    "float_le (Finite 1) (Finite 1)" "\<not> float_le float_0_001 float_0_0009"
    "\<not> float_le float_1_1 (Finite 1)" "float_le float_0_1 float_0_1"
    "float_le float_0_1 (Finite 1)"
    by (simp_all add: float_0_001_def float_0_0009_def float_1_1_def float_0_1_def)
  have srv: "\<forall>srv. main_module py env = Inr srv \<longrightarrow>
            sc_linear_deflection (srv_converter srv) = float_0_1 \<and>
            sc_angular_deflection (srv_converter srv) = Finite (1 / 2)"
    by (auto simp: main_module_def converter_def bindR_def split: sum.splits option.splits)
  have cfg: "((l = float_0_001 \<or> l = Finite 1 \<or> (float_le float_0_001 l \<and> float_le l (Finite 1))) \<and>
          (a = float_0_1 \<or> a = Finite 1 \<or> (float_le float_0_1 a \<and> float_le a (Finite 1))) \<and>
          int_of_str py (getenv env ''PORT'' ''5000'') = Inr p \<and>
          int_of_str py (getenv env ''RATE_LIMIT_PER_MINUTE'' ''10'') = Inr rl \<longrightarrow>
            (\<exists>cfg. from_env py env = Inr cfg \<and> linear_deflection cfg = l \<and>
               angular_deflection cfg = a))
       \<and> (l = float_0_0009 \<or> l = float_1_1 \<or>
          \<not> (float_le (Finite (1 / 1000)) l \<and> float_le l (Finite 1)) \<or>
          \<not> (float_le (Finite (1 / 10)) a \<and> float_le a (Finite 1)) \<longrightarrow>
            (\<exists>m. from_env py env = Inl (Exc ValueError m)))"
    using assms le1 le2 b1
    by (auto simp: from_env_def bindR_def Let_def)
  from cfg srv show ?thesis by (rule conjI[THEN conj_assoc[THEN iffD1]])
qed

text \<open>
  The boundary values 0.001 and 1.0 load; 0.0009 does not load.
\<close>

theorem deflection_range_checked_at_load_witness:
  "(\<exists>cfg. from_env cpython env_boundary = Inr cfg \<and> linear_deflection cfg = float_0_001 \<and>
      angular_deflection cfg = Finite 1)
   \<and> (\<exists>m. from_env cpython env_too_fine = Inl (Exc ValueError m))"
proof -
  have i: "int_of_str cpython (getenv env_boundary ''MAX_FILE_SIZE_MB'' ''50'') = Inr 50"
    "int_of_str cpython (getenv env_boundary ''PORT'' ''5000'') = Inr 5000"
    "int_of_str cpython (getenv env_boundary ''RATE_LIMIT_PER_MINUTE'' ''10'') = Inr 10"
    "int_of_str cpython (getenv env_too_fine ''MAX_FILE_SIZE_MB'' ''50'') = Inr 50"
    by (simp_all add: cpython_def decimal_int_def getenv_def env_boundary_def env_too_fine_def)
  have f: "float_of_str cpython (getenv env_boundary ''LINEAR_DEFLECTION'' ''0.1'') = Inr float_0_001"
    "float_of_str cpython (getenv env_boundary ''ANGULAR_DEFLECTION'' ''0.5'') = Inr (Finite 1)"
    "float_of_str cpython (getenv env_too_fine ''LINEAR_DEFLECTION'' ''0.1'') = Inr float_0_0009"
    "float_of_str cpython (getenv env_too_fine ''ANGULAR_DEFLECTION'' ''0.5'') = Inr (Finite (1/2))"
    by (simp_all add: cpython_def table_float_def float_table_def getenv_def env_boundary_def
        env_too_fine_def)
  show ?thesis
    using deflection_range_checked_at_load [OF i(1) f(1) f(2), of 5000 10]
      deflection_range_checked_at_load [OF i(4) f(3) f(4)] i(2) i(3)
    by simp
qed

text \<open>
  C8, as stated, fails: with \<^verbatim>\<open>LINEAR_DEFLECTION=0.0009\<close> in the environment \<^verbatim>\<open>from_env\<close>
  raises \<open>ValueError\<close>, yet the start of the service raises nothing: it ends with a server
  on port 5000 whose converter has the deflections 0.1 and 0.5.
\<close>

theorem service_starts_with_rejected_deflection:
  "main_module cpython env_too_fine =
     Inr \<lparr>srv_host = ''0.0.0.0'', srv_port = 5000,
          srv_converter = \<lparr>sc_linear_deflection = float_0_1,
                           sc_angular_deflection = Finite (1 / 2)\<rparr>\<rparr>
   \<and> from_env cpython env_too_fine =
     Inl (Exc ValueError ''LINEAR_DEFLECTION must be between 0.001 and 1.0, got 0.0009'')"
proof -
  have m: "main_module cpython env_too_fine =
     Inr \<lparr>srv_host = ''0.0.0.0'', srv_port = 5000,
          srv_converter = \<lparr>sc_linear_deflection = float_0_1,
                           sc_angular_deflection = Finite (1 / 2)\<rparr>\<rparr>"
    by (simp add: main_module_def converter_def bindR_def env_too_fine_def)
  have r: "float_repr cpython float_0_0009 = ''0.0009''"
    by (simp add: cpython_def table_repr_def float_table_def float_0_001_def float_0_0009_def)
  have i: "int_of_str cpython (getenv env_too_fine ''MAX_FILE_SIZE_MB'' ''50'') = Inr 50"
    by (simp add: cpython_def decimal_int_def getenv_def env_too_fine_def)
  have f: "float_of_str cpython (getenv env_too_fine ''LINEAR_DEFLECTION'' ''0.1'') = Inr float_0_0009"
    "float_of_str cpython (getenv env_too_fine ''ANGULAR_DEFLECTION'' ''0.5'') = Inr (Finite (1/2))"
    by (simp_all add: cpython_def table_float_def float_table_def getenv_def env_too_fine_def)
  have n: "\<not> float_le float_0_001 float_0_0009"
    by (simp add: float_0_001_def float_0_0009_def)
  have "from_env cpython env_too_fine =
     Inl (Exc ValueError ''LINEAR_DEFLECTION must be between 0.001 and 1.0, got 0.0009'')"
    using i f n r by (simp add: from_env_def bindR_def Let_def)
  with m show ?thesis by (rule conjI)
qed

end
